theory Spec2Isabelle
  imports Main "HOL-Library.AList"
begin

section \<open>Values, dictionaries and errors\<close>

text \<open>
  The handlers of \<^verbatim>\<open>routes/users.py\<close> work on Python dictionaries: the documents of
  the store, the claim set of a decoded token and the bodies they return. A dictionary is
  an association list from field names to values, in insertion order. Python's \<^verbatim>\<open>None\<close>
  and a stored null are the value \<open>Null\<close>.
\<close>

datatype bson =
    Null
  | Str string
  | Num int
  | ObjectId nat
  | Datetime nat
  | Array "bson list"
  | Document "(string \<times> bson) list"

type_synonym dict = "(string \<times> bson) list"

text \<open>
  What a handler can raise: the \<^verbatim>\<open>HTTPException(status_code, detail, headers)\<close> it
  builds itself, the \<^verbatim>\<open>KeyError\<close> of a subscript \<^verbatim>\<open>d[k]\<close> on a missing key, and the
  store's refusal of a second document with the same \<^verbatim>\<open>_id\<close>.
\<close>

datatype error =
    HTTPException nat string "(string \<times> string) list option"
  | KeyError string
  | DuplicateKeyError

text \<open>\<^verbatim>\<open>d.get(k)\<close>: the value, or \<^verbatim>\<open>None\<close> when the key is missing.\<close>

definition dict_get :: "dict \<Rightarrow> string \<Rightarrow> bson" where
  "dict_get d k = (case map_of d k of None \<Rightarrow> Null | Some v \<Rightarrow> v)"

text \<open>\<^verbatim>\<open>d[k]\<close>: the value, or \<^verbatim>\<open>KeyError\<close> when the key is missing.\<close>

definition dict_item :: "dict \<Rightarrow> string \<Rightarrow> error + bson" where
  "dict_item d k = (case map_of d k of None \<Rightarrow> Inl (KeyError k) | Some v \<Rightarrow> Inr v)"

text \<open>\<^verbatim>\<open>d[k] = v\<close>: overwrite the value in place, or append the new key.\<close>

definition dict_set :: "dict \<Rightarrow> string \<Rightarrow> bson \<Rightarrow> dict" where
  "dict_set d k v = AList.update k v d"

text \<open>
  Truth value of the result of \<^verbatim>\<open>find_one\<close> in \<^verbatim>\<open>if user\<close> and \<^verbatim>\<open>if not user\<close>:
  \<^verbatim>\<open>None\<close> and the empty dictionary are false.
\<close>

definition truthy :: "dict option \<Rightarrow> bool" where
  "truthy r = (case r of None \<Rightarrow> False | Some d \<Rightarrow> d \<noteq> [])"

section \<open>The credential store\<close>

text \<open>
  The database handle \<^verbatim>\<open>db\<close> has the two collections the handlers touch. A collection is
  the list of its documents in natural order. The store is reached only through
  \<^verbatim>\<open>find_one\<close>, \<^verbatim>\<open>insert_one\<close> and \<^verbatim>\<open>update_one\<close>; they are the driver's, so their
  behaviour is written here as the handlers use it.
\<close>

record database =
  users :: "dict list"
  statistics :: "dict list"

text \<open>
  An equality filter \<^verbatim>\<open>{k: v, ...}\<close>: a document matches when each field of the filter
  is present in it with an equal value.
\<close>

definition matches :: "dict \<Rightarrow> dict \<Rightarrow> bool" where
  "matches d flt = list_all (\<lambda>(k, v). map_of d k = Some v) flt"

text \<open>\<^verbatim>\<open>find_one(flt)\<close>: the first matching document, or \<^verbatim>\<open>None\<close>.\<close>

definition find_one :: "dict list \<Rightarrow> dict \<Rightarrow> dict option" where
  "find_one coll flt = find (\<lambda>d. matches d flt) coll"

text \<open>
  \<^verbatim>\<open>update_one(flt, {"$set": changes})\<close>: the first matching document gets each field of
  \<open>changes\<close> set; the others, and a collection with no match, are left as they are.
\<close>

definition apply_set :: "dict \<Rightarrow> dict \<Rightarrow> dict" where
  "apply_set d changes = fold (\<lambda>(k, v) acc. dict_set acc k v) changes d"

fun update_one :: "dict list \<Rightarrow> dict \<Rightarrow> dict \<Rightarrow> dict list" where
  "update_one [] flt changes = []"
| "update_one (d # ds) flt changes =
     (if matches d flt then apply_set d changes # ds else d # update_one ds flt changes)"

text \<open>
  \<^verbatim>\<open>insert_one(document)\<close>: a document without \<^verbatim>\<open>_id\<close> gets the ObjectId \<open>oid\<close> that the
  driver generates for it; the store keeps \<^verbatim>\<open>_id\<close> unique and raises
  \<^verbatim>\<open>DuplicateKeyError\<close> otherwise. The result carries \<^verbatim>\<open>inserted_id\<close>.
\<close>

definition ids :: "dict list \<Rightarrow> bson list" where
  "ids coll = map (\<lambda>d. dict_get d ''_id'') coll"

definition insert_one :: "dict list \<Rightarrow> dict \<Rightarrow> nat \<Rightarrow> error + (bson \<times> dict list)" where
  "insert_one coll document oid =
     (let stored = (case map_of document ''_id'' of
                      None \<Rightarrow> (''_id'', ObjectId oid) # document
                    | Some _ \<Rightarrow> document);
          inserted_id = dict_get stored ''_id''
      in if inserted_id \<in> set (ids coll) then Inl DuplicateKeyError
         else Inr (inserted_id, coll @ [stored]))"

text \<open>
  The calls \<^verbatim>\<open>await db.users.find_one(...)\<close>, \<^verbatim>\<open>await db.users.update_one(...)\<close>,
  \<^verbatim>\<open>await db.users.insert_one(...)\<close> and \<^verbatim>\<open>await db.statistics.insert_one(...)\<close> as steps
  on the database: each returns its result and the database after it.
\<close>

definition users_find_one :: "dict \<Rightarrow> database \<Rightarrow> dict option \<times> database" where
  "users_find_one flt db = (find_one (users db) flt, db)"

definition users_update_one :: "dict \<Rightarrow> dict \<Rightarrow> database \<Rightarrow> database" where
  "users_update_one flt changes db = db\<lparr>users := update_one (users db) flt changes\<rparr>"

definition users_insert_one :: "dict \<Rightarrow> nat \<Rightarrow> database \<Rightarrow> (error + bson) \<times> database" where
  "users_insert_one document oid db =
     (case insert_one (users db) document oid of
        Inl e \<Rightarrow> (Inl e, db)
      | Inr (inserted_id, coll) \<Rightarrow> (Inr inserted_id, db\<lparr>users := coll\<rparr>))"

definition statistics_insert_one :: "dict \<Rightarrow> nat \<Rightarrow> database \<Rightarrow> (error + bson) \<times> database" where
  "statistics_insert_one document oid db =
     (case insert_one (statistics db) document oid of
        Inl e \<Rightarrow> (Inl e, db)
      | Inr (inserted_id, coll) \<Rightarrow> (Inr inserted_id, db\<lparr>statistics := coll\<rparr>))"

section \<open>The collaborators of one call\<close>

text \<open>
  \<^verbatim>\<open>utils\<close>, \<^verbatim>\<open>settings\<close> and \<^verbatim>\<open>models\<close> are imported by \<^verbatim>\<open>routes/users.py\<close> and are
  not part of it, so the handlers take them as a parameter: an environment holds what
  each collaborator answers during one call of a handler. No handler calls the same
  helper twice, so a helper that reads the clock or draws a salt is covered by giving
  two calls two environments.

  \<^item> \<open>ACCESS_TOKEN_EXPIRE_MINUTES\<close>: the field of \<^verbatim>\<open>settings\<close>;
  \<^item> \<open>create_access_token\<close>, \<open>create_refresh_token\<close>, \<open>decode_token\<close>,
    \<open>verify_password\<close>, \<open>get_password_hash\<close>: the functions of \<^verbatim>\<open>utils\<close>;
  \<^item> \<open>str\<close>: Python's \<^verbatim>\<open>str(...)\<close>, applied to an \<^verbatim>\<open>_id\<close>;
  \<^item> \<open>utcnow\<close> and \<open>now_utc\<close>: what \<^verbatim>\<open>datetime.utcnow()\<close> and
    \<^verbatim>\<open>datetime.now(timezone.utc)\<close> read;
  \<^item> \<open>users_ObjectId\<close> and \<open>statistics_ObjectId\<close>: the ObjectIds the driver generates
    for the two \<^verbatim>\<open>insert_one\<close> calls of \<^verbatim>\<open>register_user\<close>.
\<close>

datatype timedelta = Minutes int

record env =
  ACCESS_TOKEN_EXPIRE_MINUTES :: int
  create_access_token :: "dict \<Rightarrow> timedelta \<Rightarrow> string"
  create_refresh_token :: "dict \<Rightarrow> string"
  decode_token :: "string \<Rightarrow> dict option"
  verify_password :: "string \<Rightarrow> bson \<Rightarrow> bool"
  get_password_hash :: "string \<Rightarrow> string"
  str :: "bson \<Rightarrow> string"
  utcnow :: nat
  now_utc :: nat
  users_ObjectId :: nat
  statistics_ObjectId :: nat

section \<open>Request models\<close>

text \<open>
  \<^verbatim>\<open>UserLogin\<close> and \<^verbatim>\<open>UserCreate\<close> declare the same two fields; \<^verbatim>\<open>RefreshTokenRequest\<close>
  has one. A handler runs on a request that already is an instance of its model.
\<close>

record UserLogin =
  username :: string
  password :: string

type_synonym UserCreate = UserLogin

record RefreshTokenRequest =
  refresh_token :: string

section \<open>The handlers\<close>

definition bearer_headers :: "(string \<times> string) list option" where
  "bearer_headers = Some [(''WWW-Authenticate'', ''Bearer'')]"

definition HTTP_401_UNAUTHORIZED :: nat where
  "HTTP_401_UNAUTHORIZED = 401"

text \<open>\<^verbatim>\<open>POST /login\<close>, from the validated \<^verbatim>\<open>UserLogin\<close> on (lines 42 to 59).\<close>

definition login_for_access_token ::
  "env \<Rightarrow> UserLogin \<Rightarrow> database \<Rightarrow> (error + dict) \<times> database" where
  "login_for_access_token E user_login db =
     (case users_find_one [(''username'', Str (username user_login))] db of
        (found, db1) \<Rightarrow>
          (case found of
             None \<Rightarrow>
               (Inl (HTTPException HTTP_401_UNAUTHORIZED ''Incorrect username or password''
                       bearer_headers), db1)
           | Some user \<Rightarrow>
               if user = [] then
                 (Inl (HTTPException HTTP_401_UNAUTHORIZED ''Incorrect username or password''
                         bearer_headers), db1)
               else
                 (case dict_item user ''password'' of
                    Inl e \<Rightarrow> (Inl e, db1)
                  | Inr hashed \<Rightarrow>
                      if \<not> verify_password E (password user_login) hashed then
                        (Inl (HTTPException HTTP_401_UNAUTHORIZED
                                ''Incorrect username or password'' bearer_headers), db1)
                      else
                        (case dict_item user ''username'' of
                           Inl e \<Rightarrow> (Inl e, db1)
                         | Inr sub \<Rightarrow>
                             let access_token_expires = Minutes (ACCESS_TOKEN_EXPIRE_MINUTES E);
                                 access_token =
                                   create_access_token E [(''sub'', sub)] access_token_expires;
                                 refresh_token = create_refresh_token E [(''sub'', sub)]
                             in (case dict_item user ''_id'' of
                                   Inl e \<Rightarrow> (Inl e, db1)
                                 | Inr uid \<Rightarrow>
                                     let db2 = users_update_one [(''_id'', uid)]
                                                 [(''refresh_token'', Str refresh_token)] db1
                                     in (Inr [(''access_token'', Str access_token),
                                              (''refresh_token'', Str refresh_token),
                                              (''token_type'', Str ''bearer''),
                                              (''user_id'', Str (str E uid))], db2))))))"

text \<open>\<^verbatim>\<open>POST /refresh\<close> (lines 63 to 89).\<close>

definition refresh_access_token ::
  "env \<Rightarrow> RefreshTokenRequest \<Rightarrow> database \<Rightarrow> (error + dict) \<times> database" where
  "refresh_access_token E request db =
     (case decode_token E (refresh_token request) of
        None \<Rightarrow>
          (Inl (HTTPException HTTP_401_UNAUTHORIZED ''Invalid refresh token'' bearer_headers), db)
      | Some payload \<Rightarrow>
          let sub = dict_get payload ''sub'' in
          if sub = Null then
            (Inl (HTTPException HTTP_401_UNAUTHORIZED ''Invalid refresh token'' bearer_headers),
             db)
          else
            (case users_find_one [(''username'', sub)] db of
               (found, db1) \<Rightarrow>
                 (case found of
                    None \<Rightarrow>
                      (Inl (HTTPException HTTP_401_UNAUTHORIZED ''Invalid refresh token''
                              bearer_headers), db1)
                  | Some user \<Rightarrow>
                      if user = [] \<or> dict_get user ''refresh_token'' \<noteq> Str (refresh_token request)
                      then
                        (Inl (HTTPException HTTP_401_UNAUTHORIZED ''Invalid refresh token''
                                bearer_headers), db1)
                      else
                        (case dict_item user ''username'' of
                           Inl e \<Rightarrow> (Inl e, db1)
                         | Inr name \<Rightarrow>
                             let access_token_expires = Minutes (ACCESS_TOKEN_EXPIRE_MINUTES E);
                                 access_token =
                                   create_access_token E [(''sub'', name)] access_token_expires
                             in (Inr [(''access_token'', Str access_token),
                                      (''refresh_token'', Str (refresh_token request)),
                                      (''token_type'', Str ''bearer'')], db1)))))"

text \<open>\<^verbatim>\<open>POST /register\<close> (lines 94 to 122).\<close>

definition register_user ::
  "env \<Rightarrow> UserCreate \<Rightarrow> database \<Rightarrow> (error + dict) \<times> database" where
  "register_user E user db =
     (case users_find_one [(''username'', Str (username user))] db of
        (found, db1) \<Rightarrow>
          if truthy found then
            (Inl (HTTPException 400 ''Username already registered'' None), db1)
          else
            let hashed_password = get_password_hash E (password user);
                user_data0 = [(''username'', Str (username user)),
                              (''password'', Str (password user))];
                user_data1 = dict_set user_data0 ''password'' (Str hashed_password);
                user_data = dict_set user_data1 ''created_at'' (Datetime (utcnow E))
            in (case users_insert_one user_data (users_ObjectId E) db1 of
                  (Inl e, db2) \<Rightarrow> (Inl e, db2)
                | (Inr inserted_id, db2) \<Rightarrow>
                    let statistics_data =
                          [(''user_id'', inserted_id),
                           (''weekly'', Array []),
                           (''monthly'', Array []),
                           (''yearly'', Array []),
                           (''total_distance'', Document
                              [(''year_start'', Datetime (now_utc E)),
                               (''distance'', Num 0),
                               (''duration'', Num 0),
                               (''count'', Num 0),
                               (''average_pace'', Num 0)])]
                    in (case statistics_insert_one statistics_data (statistics_ObjectId E) db2 of
                          (Inl e, db3) \<Rightarrow> (Inl e, db3)
                        | (Inr _, db3) \<Rightarrow>
                            (Inr [(''id'', Str (str E inserted_id)),
                                  (''username'', Str (username user))], db3))))"

text \<open>
  \<^verbatim>\<open>GET /me\<close> (lines 126 to 147). The parameter \<open>token\<close> is what the dependency
  \<^verbatim>\<open>decode_token\<close> gave: a claim set or \<^verbatim>\<open>None\<close>. The handler returns the document it
  found, as it is.
\<close>

definition read_users_me :: "dict option \<Rightarrow> database \<Rightarrow> (error + dict) \<times> database" where
  "read_users_me token db =
     (case token of
        None \<Rightarrow> (Inl (HTTPException HTTP_401_UNAUTHORIZED ''Invalid token'' bearer_headers), db)
      | Some claims \<Rightarrow>
          let sub = dict_get claims ''sub'' in
          if sub = Null then
            (Inl (HTTPException HTTP_401_UNAUTHORIZED ''Invalid token'' bearer_headers), db)
          else
            (case users_find_one [(''username'', sub)] db of
               (found, db1) \<Rightarrow>
                 if \<not> truthy found then
                   (Inl (HTTPException HTTP_401_UNAUTHORIZED ''Invalid token'' bearer_headers),
                    db1)
                 else
                   (case found of
                      None \<Rightarrow>
                        (Inl (HTTPException HTTP_401_UNAUTHORIZED ''Invalid token''
                                bearer_headers), db1)
                    | Some user \<Rightarrow> (Inr user, db1))))"

text \<open>
  Modelled from the spec: the response model \<^verbatim>\<open>User\<close> of \<^verbatim>\<open>models.py\<close>, named by
  \<^verbatim>\<open>@router.get("/me", response_model=User)\<close> and not among the sources. The spec
  (4.4, step 3) gives its fields: "the user's public profile fields (identifier, username,
  creation time)". The framework keeps, of the document the handler returns, the fields
  the response model declares; \<open>me\<close> is the endpoint, the handler followed by that filter.
\<close>

definition User_fields :: "string list" where
  "User_fields = [''_id'', ''username'', ''created_at'']"

definition response_model_User :: "dict \<Rightarrow> dict" where
  "response_model_User d = filter (\<lambda>(k, v). k \<in> set User_fields) d"

definition me :: "dict option \<Rightarrow> database \<Rightarrow> (error + dict) \<times> database" where
  "me token db =
     (case read_users_me token db of
        (Inl e, db1) \<Rightarrow> (Inl e, db1)
      | (Inr user, db1) \<Rightarrow> (Inr (response_model_User user), db1))"

section \<open>Vocabulary of the statements\<close>

text \<open>
  The store's guarantee on a collection: every document carries an \<^verbatim>\<open>_id\<close> and no two
  documents share one.
\<close>

definition unique_ids :: "dict list \<Rightarrow> bool" where
  "unique_ids coll = (distinct (ids coll) \<and> list_all (\<lambda>d. map_of d ''_id'' \<noteq> None) coll)"

text \<open>
  \<open>decodes_for E t sub\<close>: in the environment \<open>E\<close> the token \<open>t\<close> verifies and its
  claim set carries the subject \<open>sub\<close>.
\<close>

definition decodes_for :: "env \<Rightarrow> string \<Rightarrow> bson \<Rightarrow> bool" where
  "decodes_for E t sub =
     (case decode_token E t of None \<Rightarrow> False | Some payload \<Rightarrow> dict_get payload ''sub'' = sub)"

text \<open>
  \<open>store_token user t coll\<close>: the collection \<open>coll\<close> with the document \<open>user\<close> replaced
  by itself with \<^verbatim>\<open>refresh_token\<close> set to \<open>t\<close>, and every other document as it was.
\<close>

definition store_token :: "dict \<Rightarrow> string \<Rightarrow> dict list \<Rightarrow> dict list" where
  "store_token user t coll =
     map (\<lambda>x. if x = user then dict_set user ''refresh_token'' (Str t) else x) coll"

text \<open>The 401 error of \<^verbatim>\<open>refresh_access_token\<close> and \<^verbatim>\<open>login_for_access_token\<close>, by its detail.\<close>

definition Unauthorized :: "string \<Rightarrow> error" where
  "Unauthorized detail = HTTPException 401 detail (Some [(''WWW-Authenticate'', ''Bearer'')])"

text \<open>
  The stores the service can be in: the empty store, and what any call of a handler, in
  any environment, leaves behind.
\<close>

datatype call =
    Login env UserLogin
  | Refresh env RefreshTokenRequest
  | Register env UserLogin
  | Me "dict option"

fun serve :: "call \<Rightarrow> database \<Rightarrow> (error + dict) \<times> database" where
  "serve (Login E user_login) db = login_for_access_token E user_login db"
| "serve (Refresh E request) db = refresh_access_token E request db"
| "serve (Register E user) db = register_user E user db"
| "serve (Me token) db = read_users_me token db"

inductive reachable :: "database \<Rightarrow> bool" where
  empty: "reachable \<lparr>users = [], statistics = []\<rparr>"
| call: "reachable db \<Longrightarrow> reachable (snd (serve c db))"

section \<open>A concrete instance\<close>

text \<open>
  A small token codec and password hasher, and a store with one user, on which the
  handlers can be evaluated. A token is a kind letter (\<open>A\<close> access, \<open>R\<close> refresh), a
  stamp \<open>c\<close> standing for what the codec takes from the clock at minting time, and the
  subject; the hash of a password is its reversal.
\<close>

definition sub_text :: "dict \<Rightarrow> string" where
  "sub_text claims = (case dict_get claims ''sub'' of Str s \<Rightarrow> s | _ \<Rightarrow> [])"

definition example_env :: "char \<Rightarrow> env" where
  "example_env c =
     \<lparr>ACCESS_TOKEN_EXPIRE_MINUTES = 30,
      create_access_token = (\<lambda>claims delta. CHR ''A'' # c # sub_text claims),
      create_refresh_token = (\<lambda>claims. CHR ''R'' # c # sub_text claims),
      decode_token = (\<lambda>t. case t of k # s # rest \<Rightarrow> Some [(''sub'', Str rest)] | _ \<Rightarrow> None),
      verify_password = (\<lambda>p h. h = Str (rev p)),
      get_password_hash = rev,
      str = (\<lambda>v. case v of ObjectId n \<Rightarrow> replicate n (CHR ''i'') | Str s \<Rightarrow> s | _ \<Rightarrow> []),
      utcnow = 1000,
      now_utc = 1001,
      users_ObjectId = 2,
      statistics_ObjectId = 2\<rparr>"

definition alice :: dict where
  "alice = [(''_id'', ObjectId 1), (''username'', Str ''alice''), (''password'', Str ''ssap''),
            (''created_at'', Datetime 5)]"

definition example_db :: database where
  "example_db = \<lparr>users = [alice], statistics = [[(''_id'', ObjectId 1), (''user_id'', ObjectId 1)]]\<rparr>"

text \<open>The same store after \<open>alice\<close> has logged in and holds the refresh token \<open>R1alice\<close>.\<close>

definition alice_logged_in :: dict where
  "alice_logged_in = dict_set alice ''refresh_token'' (Str ''R1alice'')"

definition example_db_logged_in :: database where
  "example_db_logged_in = example_db\<lparr>users := [alice_logged_in]\<rparr>"

text \<open>And after she has logged in a second time and holds \<open>R2alice\<close>.\<close>

definition alice_logged_in_again :: dict where
  "alice_logged_in_again = dict_set alice_logged_in ''refresh_token'' (Str ''R2alice'')"

definition example_db_logged_in_again :: database where
  "example_db_logged_in_again = example_db\<lparr>users := [alice_logged_in_again]\<rparr>"

section \<open>Dictionaries and the store: basic facts\<close>

lemma map_of_dict_set: "map_of (dict_set d k v) k' = (if k' = k then Some v else map_of d k')"
  by (simp add: dict_set_def update_conv')

lemma matches_single: "matches d [(k, v)] = (map_of d k = Some v)"
  by (simp add: matches_def)

lemma find_one_SomeD: "find_one coll flt = Some d \<Longrightarrow> d \<in> set coll \<and> matches d flt"
  by (auto simp: find_one_def find_Some_iff)

lemma find_one_nonempty: "find_one coll [(k, v)] = Some d \<Longrightarrow> d \<noteq> []"
  by (auto dest!: find_one_SomeD simp: matches_single)

lemma Unauthorized_eq:
  "HTTPException HTTP_401_UNAUTHORIZED detail bearer_headers = Unauthorized detail"
  by (simp add: Unauthorized_def HTTP_401_UNAUTHORIZED_def bearer_headers_def)

lemma dict_item_Inr: "map_of d k = Some v \<Longrightarrow> dict_item d k = Inr v"
  by (simp add: dict_item_def)

lemma dict_get_dict_set: "dict_get (dict_set d k v) k' = (if k' = k then v else dict_get d k')"
  by (simp add: dict_get_def map_of_dict_set)

lemma apply_set_single: "apply_set d [(k, v)] = dict_set d k v"
  by (simp add: apply_set_def)

lemma ids_Cons: "ids (d # ds) = dict_get d ''_id'' # ids ds"
  by (simp add: ids_def)

lemma id_in_ids: "d \<in> set coll \<Longrightarrow> dict_get d ''_id'' \<in> set (ids coll)"
  by (simp add: ids_def)

lemma update_one_unique:
  assumes "distinct (ids coll)" and "d \<in> set coll" and "map_of d ''_id'' = Some uid"
  shows "update_one coll [(''_id'', uid)] changes =
           map (\<lambda>x. if x = d then apply_set d changes else x) coll"
  using assms(1,2)
proof (induction coll)
  case Nil
  then show ?case by simp
next
  case (Cons x xs)
  from assms(3) have duid: "dict_get d ''_id'' = uid" by (simp add: dict_get_def)
  from Cons.prems have dist: "dict_get x ''_id'' \<notin> set (ids xs)" "distinct (ids xs)"
    by (simp_all add: ids_Cons)
  show ?case
  proof (cases "map_of x ''_id'' = Some uid")
    case True
    then have "dict_get x ''_id'' = uid" by (simp add: dict_get_def)
    with dist(1) duid have "d \<notin> set xs" using id_in_ids by metis
    with Cons.prems have dx: "x = d" by simp
    from \<open>d \<notin> set xs\<close> have "map (\<lambda>y. if y = d then apply_set d changes else y) xs = xs"
      by (induction xs) auto
    with True dx show ?thesis by (simp add: matches_single)
  next
    case False
    with assms(3) have "x \<noteq> d" by auto
    with Cons.prems have "d \<in> set xs" by simp
    with Cons.IH dist(2) False \<open>x \<noteq> d\<close> show ?thesis by (simp add: matches_single)
  qed
qed

lemma insert_one_fresh:
  assumes "map_of document ''_id'' = None" and "ObjectId oid \<notin> set (ids coll)"
  shows "insert_one coll document oid =
           Inr (ObjectId oid, coll @ [(''_id'', ObjectId oid) # document])"
  using assms by (simp add: insert_one_def dict_get_def Let_def)

lemma unique_ids_has_id: "unique_ids coll \<Longrightarrow> d \<in> set coll \<Longrightarrow> \<exists>uid. map_of d ''_id'' = Some uid"
  by (auto simp: unique_ids_def list_all_iff)

lemma find_one_map:
  assumes "\<And>x. x \<in> set coll \<Longrightarrow> matches (f x) flt = matches x flt"
  shows "find_one (map f coll) flt = map_option f (find_one coll flt)"
  using assms by (induction coll) (auto simp: find_one_def)

lemma ids_store_token: "ids (store_token user t coll) = ids coll"
  by (induction coll) (auto simp: store_token_def ids_def dict_get_dict_set)

lemma unique_ids_store_token:
  assumes "unique_ids coll"
  shows "unique_ids (store_token user t coll)"
proof -
  from assms have "distinct (ids (store_token user t coll))"
    by (simp add: unique_ids_def ids_store_token)
  moreover from assms have "list_all (\<lambda>d. map_of d ''_id'' \<noteq> None) (store_token user t coll)"
    by (auto simp: unique_ids_def list_all_iff store_token_def map_of_dict_set)
  ultimately show ?thesis by (simp add: unique_ids_def)
qed

lemma find_one_store_token:
  assumes "find_one coll [(''username'', v)] = Some user"
  shows "find_one (store_token user t coll) [(''username'', v)]
           = Some (dict_set user ''refresh_token'' (Str t))"
proof -
  have "find_one (store_token user t coll) [(''username'', v)]
          = map_option (\<lambda>x. if x = user then dict_set user ''refresh_token'' (Str t) else x)
              (find_one coll [(''username'', v)])"
    unfolding store_token_def
    by (rule find_one_map) (simp add: matches_single map_of_dict_set)
  with assms show ?thesis by simp
qed

text \<open>Unfolding sets for evaluating the handlers on the concrete instance.\<close>

lemmas example_defs = example_env_def example_db_def alice_def sub_text_def
  alice_logged_in_def example_db_logged_in_def alice_logged_in_again_def
  example_db_logged_in_again_def

lemmas store_defs = find_one_def matches_def dict_get_def dict_item_def dict_set_def
  users_find_one_def users_update_one_def users_insert_one_def statistics_insert_one_def
  insert_one_def ids_def apply_set_def truthy_def

section \<open>Refresh\<close>

lemma refresh_success:
  assumes "decode_token E (refresh_token request) = Some payload"
    and "dict_get payload ''sub'' \<noteq> Null"
    and "find_one (users db) [(''username'', dict_get payload ''sub'')] = Some user"
    and "dict_get user ''refresh_token'' = Str (refresh_token request)"
  shows "refresh_access_token E request db =
           (Inr [(''access_token'',
                    Str (create_access_token E [(''sub'', dict_get payload ''sub'')]
                           (Minutes (ACCESS_TOKEN_EXPIRE_MINUTES E)))),
                 (''refresh_token'', Str (refresh_token request)),
                 (''token_type'', Str ''bearer'')], db)"
proof -
  from assms(3) have m: "map_of user ''username'' = Some (dict_get payload ''sub'')"
    and ne: "user \<noteq> []"
    by (auto dest: find_one_SomeD find_one_nonempty simp: matches_single)
  show ?thesis
    using assms ne
    by (simp add: refresh_access_token_def users_find_one_def Let_def dict_item_Inr [OF m])
qed

lemma refresh_failure:
  assumes "decode_token E (refresh_token request) = None
           \<or> (\<exists>payload. decode_token E (refresh_token request) = Some payload \<and>
                 (dict_get payload ''sub'' = Null
                  \<or> find_one (users db) [(''username'', dict_get payload ''sub'')] = None
                  \<or> (\<exists>user. find_one (users db) [(''username'', dict_get payload ''sub'')] = Some user
                       \<and> dict_get user ''refresh_token'' \<noteq> Str (refresh_token request))))"
  shows "refresh_access_token E request db = (Inl (Unauthorized ''Invalid refresh token''), db)"
  using assms
  by (auto simp: refresh_access_token_def users_find_one_def Let_def Unauthorized_eq)

text \<open>
  C1. A refresh succeeds only if the presented token decodes to a claim set with a subject,
  a user record is found for that subject, and the record's stored \<^verbatim>\<open>refresh_token\<close> is
  exactly the presented string. If the token decodes to a subject and the user is absent,
  or the stored value differs from the presented string (a superseded token included),
  the refresh fails with 401 Unauthorized, "Invalid refresh token".
\<close>

theorem refresh_requires_stored_token:
  "(\<forall>body. fst (refresh_access_token E request db) = Inr body \<longrightarrow>
      (\<exists>payload user.
          decode_token E (refresh_token request) = Some payload \<and>
          dict_get payload ''sub'' \<noteq> Null \<and>
          find_one (users db) [(''username'', dict_get payload ''sub'')] = Some user \<and>
          dict_get user ''refresh_token'' = Str (refresh_token request)))
   \<and> (\<forall>payload.
        decode_token E (refresh_token request) = Some payload \<and>
        dict_get payload ''sub'' \<noteq> Null \<and>
        (find_one (users db) [(''username'', dict_get payload ''sub'')] = None
         \<or> (\<exists>user. find_one (users db) [(''username'', dict_get payload ''sub'')] = Some user
               \<and> dict_get user ''refresh_token'' \<noteq> Str (refresh_token request))) \<longrightarrow>
        fst (refresh_access_token E request db) = Inl (Unauthorized ''Invalid refresh token''))"
proof (intro conjI allI impI)
  fix body
  assume ok: "fst (refresh_access_token E request db) = Inr body"
  show "\<exists>payload user.
          decode_token E (refresh_token request) = Some payload \<and>
          dict_get payload ''sub'' \<noteq> Null \<and>
          find_one (users db) [(''username'', dict_get payload ''sub'')] = Some user \<and>
          dict_get user ''refresh_token'' = Str (refresh_token request)"
  proof (rule ccontr)
    assume "\<not> ?thesis"
    then have "decode_token E (refresh_token request) = None
           \<or> (\<exists>payload. decode_token E (refresh_token request) = Some payload \<and>
                 (dict_get payload ''sub'' = Null
                  \<or> find_one (users db) [(''username'', dict_get payload ''sub'')] = None
                  \<or> (\<exists>user. find_one (users db) [(''username'', dict_get payload ''sub'')] = Some user
                       \<and> dict_get user ''refresh_token'' \<noteq> Str (refresh_token request))))"
      by (cases "decode_token E (refresh_token request)") auto
    from refresh_failure [OF this] ok show False by simp
  qed
next
  fix payload
  assume "decode_token E (refresh_token request) = Some payload \<and>
        dict_get payload ''sub'' \<noteq> Null \<and>
        (find_one (users db) [(''username'', dict_get payload ''sub'')] = None
         \<or> (\<exists>user. find_one (users db) [(''username'', dict_get payload ''sub'')] = Some user
               \<and> dict_get user ''refresh_token'' \<noteq> Str (refresh_token request)))"
  then show "fst (refresh_access_token E request db) = Inl (Unauthorized ''Invalid refresh token'')"
    by (subst refresh_failure) auto
qed

text \<open>
  The theorem at a store where \<open>alice\<close> holds \<open>R1alice\<close>: presenting \<open>R1alice\<close> succeeds,
  presenting the well-formed \<open>R0alice\<close> is refused.
\<close>

theorem refresh_requires_stored_token_witness:
  "fst (refresh_access_token (example_env CHR ''2'') \<lparr>refresh_token = ''R1alice''\<rparr>
         example_db_logged_in)
     = Inr [(''access_token'', Str ''A2alice''), (''refresh_token'', Str ''R1alice''),
            (''token_type'', Str ''bearer'')]
   \<and> decode_token (example_env CHR ''2'') ''R0alice'' = Some [(''sub'', Str ''alice'')]
   \<and> find_one (users example_db_logged_in) [(''username'', Str ''alice'')] = Some alice_logged_in
   \<and> dict_get alice_logged_in ''refresh_token'' = Str ''R1alice''
   \<and> dict_get alice_logged_in ''refresh_token'' \<noteq> Str ''R0alice''
   \<and> fst (refresh_access_token (example_env CHR ''2'') \<lparr>refresh_token = ''R0alice''\<rparr>
         example_db_logged_in)
     = Inl (Unauthorized ''Invalid refresh token'')"
proof -
  have ok: "fst (refresh_access_token (example_env CHR ''2'') \<lparr>refresh_token = ''R1alice''\<rparr>
                   example_db_logged_in)
              = Inr [(''access_token'', Str ''A2alice''), (''refresh_token'', Str ''R1alice''),
                     (''token_type'', Str ''bearer'')]"
    by (simp add: example_defs store_defs refresh_access_token_def)
  have store: "decode_token (example_env CHR ''2'') ''R0alice'' = Some [(''sub'', Str ''alice'')]"
    "find_one (users example_db_logged_in) [(''username'', Str ''alice'')] = Some alice_logged_in"
    "dict_get alice_logged_in ''refresh_token'' = Str ''R1alice''"
    "dict_get alice_logged_in ''refresh_token'' \<noteq> Str ''R0alice''"
    by (simp_all add: example_defs store_defs)
  have sub: "dict_get [(''sub'', Str ''alice'')] ''sub'' = Str ''alice''"
    by (simp add: dict_get_def)
  from refresh_requires_stored_token [of "example_env CHR ''2''"
          "\<lparr>refresh_token = ''R0alice''\<rparr>" example_db_logged_in] store sub
  have "fst (refresh_access_token (example_env CHR ''2'') \<lparr>refresh_token = ''R0alice''\<rparr>
               example_db_logged_in)
          = Inl (Unauthorized ''Invalid refresh token'')"
    by simp
  with ok store show ?thesis by simp
qed

text \<open>
  C10. Whatever the request and whatever the outcome, \<open>refresh_access_token\<close> leaves the
  database as it found it: both collections after the call are the collections before
  it.
\<close>

theorem refresh_access_token_frame:
  "snd (refresh_access_token E request db) = db"
  by (simp add: refresh_access_token_def users_find_one_def Let_def
           split: option.splits sum.splits)

text \<open>
  C8. A refresh request whose token decodes, carries a subject and equals the stored
  \<^verbatim>\<open>refresh_token\<close> of the user found for that subject returns a new access token minted
  for \<^verbatim>\<open>{"sub": user["username"]}\<close> with the expiry
  \<^verbatim>\<open>timedelta(minutes=settings.ACCESS_TOKEN_EXPIRE_MINUTES)\<close>, the presented refresh token
  unchanged, and the label \<open>bearer\<close>. Where the codec decodes a token to the subject it
  was minted with (in an environment \<open>E'\<close> of a later call), the new access token decodes
  to the user's username.
\<close>

theorem refresh_returns_same_refresh_token:
  assumes "decode_token E (refresh_token request) = Some payload"
    and "dict_get payload ''sub'' = sub" and "sub \<noteq> Null"
    and "find_one (users db) [(''username'', sub)] = Some user"
    and "dict_get user ''refresh_token'' = Str (refresh_token request)"
    and "decodes_for E' (create_access_token E [(''sub'', sub)]
                           (Minutes (ACCESS_TOKEN_EXPIRE_MINUTES E))) sub"
  shows "refresh_access_token E request db =
           (Inr [(''access_token'',
                    Str (create_access_token E [(''sub'', dict_get user ''username'')]
                           (Minutes (ACCESS_TOKEN_EXPIRE_MINUTES E)))),
                 (''refresh_token'', Str (refresh_token request)),
                 (''token_type'', Str ''bearer'')], db)
         \<and> decodes_for E' (create_access_token E [(''sub'', dict_get user ''username'')]
                              (Minutes (ACCESS_TOKEN_EXPIRE_MINUTES E)))
              (dict_get user ''username'')"
proof -
  from assms(4) have "map_of user ''username'' = Some sub"
    by (auto dest: find_one_SomeD simp: matches_single)
  then have u: "dict_get user ''username'' = sub"
    by (simp add: dict_get_def)
  from refresh_success [OF assms(1)] assms(2-5)
  have "refresh_access_token E request db =
           (Inr [(''access_token'',
                    Str (create_access_token E [(''sub'', sub)]
                           (Minutes (ACCESS_TOKEN_EXPIRE_MINUTES E)))),
                 (''refresh_token'', Str (refresh_token request)),
                 (''token_type'', Str ''bearer'')], db)"
    by simp
  with u assms(6) show ?thesis by simp
qed

text \<open>The theorem at the store where \<open>alice\<close> holds \<open>R1alice\<close> and presents it.\<close>

theorem refresh_returns_same_refresh_token_witness:
  "decode_token (example_env CHR ''2'') ''R1alice'' = Some [(''sub'', Str ''alice'')]
   \<and> find_one (users example_db_logged_in) [(''username'', Str ''alice'')] = Some alice_logged_in
   \<and> dict_get alice_logged_in ''refresh_token'' = Str ''R1alice''
   \<and> decodes_for (example_env CHR ''3'') ''A2alice'' (Str ''alice'')
   \<and> refresh_access_token (example_env CHR ''2'') \<lparr>refresh_token = ''R1alice''\<rparr>
         example_db_logged_in
     = (Inr [(''access_token'', Str ''A2alice''), (''refresh_token'', Str ''R1alice''),
            (''token_type'', Str ''bearer'')], example_db_logged_in)"
proof -
  have store: "decode_token (example_env CHR ''2'') ''R1alice'' = Some [(''sub'', Str ''alice'')]"
    "find_one (users example_db_logged_in) [(''username'', Str ''alice'')] = Some alice_logged_in"
    "dict_get alice_logged_in ''refresh_token'' = Str ''R1alice''"
    "dict_get alice_logged_in ''username'' = Str ''alice''"
    "dict_get [(''sub'', Str ''alice'')] ''sub'' = Str ''alice''"
    by (simp_all add: example_defs store_defs)
  have codec: "create_access_token (example_env CHR ''2'') [(''sub'', Str ''alice'')]
                 (Minutes (ACCESS_TOKEN_EXPIRE_MINUTES (example_env CHR ''2''))) = ''A2alice''"
    "decodes_for (example_env CHR ''3'') ''A2alice'' (Str ''alice'')"
    by (simp_all add: example_env_def sub_text_def dict_get_def decodes_for_def)
  from refresh_returns_same_refresh_token [of "example_env CHR ''2''"
          "\<lparr>refresh_token = ''R1alice''\<rparr>" "[(''sub'', Str ''alice'')]" "Str ''alice''"
          example_db_logged_in alice_logged_in "example_env CHR ''3''"] store codec
  show ?thesis by simp
qed

section \<open>Login\<close>

lemma login_failure:
  assumes "find_one (users db) [(''username'', Str (username user_login))] = None
           \<or> (\<exists>user hashed.
                 find_one (users db) [(''username'', Str (username user_login))] = Some user \<and>
                 map_of user ''password'' = Some hashed \<and>
                 \<not> verify_password E (password user_login) hashed)"
  shows "login_for_access_token E user_login db =
           (Inl (Unauthorized ''Incorrect username or password''), db)"
  using assms
  by (auto simp: login_for_access_token_def users_find_one_def Unauthorized_eq dict_item_Inr)

lemma login_success:
  assumes "unique_ids (users db)"
    and "find_one (users db) [(''username'', Str (username user_login))] = Some user"
    and "map_of user ''password'' = Some hashed"
    and "verify_password E (password user_login) hashed"
  shows "login_for_access_token E user_login db =
           (Inr [(''access_token'',
                    Str (create_access_token E [(''sub'', Str (username user_login))]
                           (Minutes (ACCESS_TOKEN_EXPIRE_MINUTES E)))),
                 (''refresh_token'',
                    Str (create_refresh_token E [(''sub'', Str (username user_login))])),
                 (''token_type'', Str ''bearer''),
                 (''user_id'', Str (str E (dict_get user ''_id'')))],
            db\<lparr>users := store_token user
                            (create_refresh_token E [(''sub'', Str (username user_login))])
                            (users db)\<rparr>)"
proof -
  from assms(2) have mem: "user \<in> set (users db)"
    and name: "map_of user ''username'' = Some (Str (username user_login))"
    and ne: "user \<noteq> []"
    by (auto dest: find_one_SomeD find_one_nonempty simp: matches_single)
  from unique_ids_has_id [OF assms(1) mem] obtain uid where uid: "map_of user ''_id'' = Some uid"
    by blast
  then have g: "dict_get user ''_id'' = uid" by (simp add: dict_get_def)
  from assms(1) have "distinct (ids (users db))" by (simp add: unique_ids_def)
  from update_one_unique [OF this mem uid]
  have upd: "update_one (users db) [(''_id'', uid)] changes =
               map (\<lambda>x. if x = user then apply_set user changes else x) (users db)" for changes .
  show ?thesis
    using assms(2-4) ne
    by (simp add: login_for_access_token_def users_find_one_def users_update_one_def Let_def
          dict_item_Inr [OF name] dict_item_Inr [OF uid] dict_item_Inr [OF assms(3)]
          upd apply_set_single store_token_def g)
qed

lemma login_success_conv:
  assumes "login_for_access_token E user_login db = (Inr body, db')"
  shows "\<exists>user hashed.
           find_one (users db) [(''username'', Str (username user_login))] = Some user \<and>
           map_of user ''password'' = Some hashed \<and>
           verify_password E (password user_login) hashed"
  using assms
  by (auto simp: login_for_access_token_def users_find_one_def Let_def dict_item_def
           split: option.splits if_splits sum.splits)

text \<open>
  C5. A login whose username matches no user record, and a login whose password does not
  verify against the stored hash of the record found, fail with the same error: 401
  Unauthorized with the detail "Incorrect username or password" and the header
  \<^verbatim>\<open>WWW-Authenticate: Bearer\<close>. The store is left as it was.
\<close>

theorem login_rejects_generic:
  assumes "find_one (users db) [(''username'', Str (username user_login))] = None
           \<or> (\<exists>user hashed.
                 find_one (users db) [(''username'', Str (username user_login))] = Some user \<and>
                 map_of user ''password'' = Some hashed \<and>
                 \<not> verify_password E (password user_login) hashed)"
  shows "login_for_access_token E user_login db =
           (Inl (HTTPException 401 ''Incorrect username or password''
                   (Some [(''WWW-Authenticate'', ''Bearer'')])), db)"
  using login_failure [OF assms] by (simp add: Unauthorized_def)

text \<open>The theorem at an unknown username and at a wrong password for \<open>alice\<close>.\<close>

theorem login_rejects_generic_witness:
  "find_one (users example_db) [(''username'', Str ''bob'')] = None
   \<and> login_for_access_token (example_env CHR ''1'') \<lparr>username = ''bob'', password = ''pass''\<rparr>
        example_db
      = (Inl (HTTPException 401 ''Incorrect username or password''
                (Some [(''WWW-Authenticate'', ''Bearer'')])), example_db)
   \<and> find_one (users example_db) [(''username'', Str ''alice'')] = Some alice
   \<and> map_of alice ''password'' = Some (Str ''ssap'')
   \<and> \<not> verify_password (example_env CHR ''1'') ''wrong'' (Str ''ssap'')
   \<and> login_for_access_token (example_env CHR ''1'') \<lparr>username = ''alice'', password = ''wrong''\<rparr>
        example_db
      = (Inl (HTTPException 401 ''Incorrect username or password''
                (Some [(''WWW-Authenticate'', ''Bearer'')])), example_db)"
  using login_rejects_generic [of example_db "\<lparr>username = ''bob'', password = ''pass''\<rparr>"
          "example_env CHR ''1''"]
    login_rejects_generic [of example_db "\<lparr>username = ''alice'', password = ''wrong''\<rparr>"
          "example_env CHR ''1''"]
  by (simp add: example_defs store_defs)

text \<open>
  C4. A login whose username has a user record and whose password verifies against the
  stored hash mints an access token for \<^verbatim>\<open>{"sub": username}\<close> with the expiry
  \<^verbatim>\<open>timedelta(minutes=settings.ACCESS_TOKEN_EXPIRE_MINUTES)\<close> and a refresh token for
  \<^verbatim>\<open>{"sub": username}\<close>; it returns both, the label \<open>bearer\<close> and \<^verbatim>\<open>str(user["_id"])\<close>;
  and it stores the refresh token on that user's record, over any prior value, leaving
  every other user record and the statistics collection as they were. The store is one
  whose documents carry pairwise different \<^verbatim>\<open>_id\<close>s.
\<close>

theorem login_issues_and_stores_tokens:
  assumes "unique_ids (users db)"
    and "find_one (users db) [(''username'', Str (username user_login))] = Some user"
    and "map_of user ''password'' = Some hashed"
    and "verify_password E (password user_login) hashed"
  shows "login_for_access_token E user_login db =
           (Inr [(''access_token'',
                    Str (create_access_token E [(''sub'', Str (username user_login))]
                           (Minutes (ACCESS_TOKEN_EXPIRE_MINUTES E)))),
                 (''refresh_token'',
                    Str (create_refresh_token E [(''sub'', Str (username user_login))])),
                 (''token_type'', Str ''bearer''),
                 (''user_id'', Str (str E (dict_get user ''_id'')))],
            db\<lparr>users := store_token user
                            (create_refresh_token E [(''sub'', Str (username user_login))])
                            (users db)\<rparr>)
         \<and> find_one (store_token user
                       (create_refresh_token E [(''sub'', Str (username user_login))])
                       (users db))
                [(''username'', Str (username user_login))]
             = Some (dict_set user ''refresh_token''
                       (Str (create_refresh_token E [(''sub'', Str (username user_login))])))
         \<and> dict_get (dict_set user ''refresh_token''
                        (Str (create_refresh_token E [(''sub'', Str (username user_login))])))
               ''refresh_token''
             = Str (create_refresh_token E [(''sub'', Str (username user_login))])"
  using login_success [OF assms] find_one_store_token [OF assms(2)]
  by (simp add: dict_get_dict_set)

text \<open>The theorem at the first login of \<open>alice\<close>.\<close>

theorem login_issues_and_stores_tokens_witness:
  "unique_ids (users example_db)
   \<and> find_one (users example_db) [(''username'', Str ''alice'')] = Some alice
   \<and> map_of alice ''password'' = Some (Str ''ssap'')
   \<and> verify_password (example_env CHR ''1'') ''pass'' (Str ''ssap'')
   \<and> login_for_access_token (example_env CHR ''1'') \<lparr>username = ''alice'', password = ''pass''\<rparr>
        example_db =
       (Inr [(''access_token'', Str ''A1alice''), (''refresh_token'', Str ''R1alice''),
             (''token_type'', Str ''bearer''), (''user_id'', Str ''i'')],
        example_db_logged_in)
   \<and> find_one (users example_db_logged_in) [(''username'', Str ''alice'')] = Some alice_logged_in
   \<and> dict_get alice_logged_in ''refresh_token'' = Str ''R1alice''"
proof -
  have store: "unique_ids (users example_db)"
    "find_one (users example_db) [(''username'', Str ''alice'')] = Some alice"
    "map_of alice ''password'' = Some (Str ''ssap'')"
    "verify_password (example_env CHR ''1'') ''pass'' (Str ''ssap'')"
    by (simp_all add: example_defs store_defs unique_ids_def)
  have minted:
    "create_access_token (example_env CHR ''1'') [(''sub'', Str ''alice'')]
       (Minutes (ACCESS_TOKEN_EXPIRE_MINUTES (example_env CHR ''1''))) = ''A1alice''"
    "create_refresh_token (example_env CHR ''1'') [(''sub'', Str ''alice'')] = ''R1alice''"
    "str (example_env CHR ''1'') (dict_get alice ''_id'') = ''i''"
    by (simp_all add: example_defs dict_get_def)
  have after: "example_db\<lparr>users := store_token alice ''R1alice'' (users example_db)\<rparr>
                 = example_db_logged_in"
    "store_token alice ''R1alice'' (users example_db) = users example_db_logged_in"
    "dict_set alice ''refresh_token'' (Str ''R1alice'') = alice_logged_in"
    by (simp_all add: example_db_logged_in_def alice_logged_in_def example_db_def store_token_def)
  from login_issues_and_stores_tokens [of example_db
          "\<lparr>username = ''alice'', password = ''pass''\<rparr>" alice "Str ''ssap''"
          "example_env CHR ''1''"] store minted after
  show ?thesis by simp
qed

text \<open>
  After a successful login the record found for the username holds the refresh token
  just minted, and the collection still has pairwise different \<^verbatim>\<open>_id\<close>s.
\<close>

lemma login_stores_token:
  assumes "unique_ids (users db)"
    and "login_for_access_token E user_login db = (Inr body, db')"
  shows "\<exists>user. find_one (users db') [(''username'', Str (username user_login))] = Some user
           \<and> dict_get user ''refresh_token''
                = Str (create_refresh_token E [(''sub'', Str (username user_login))])
           \<and> dict_get body ''refresh_token''
                = Str (create_refresh_token E [(''sub'', Str (username user_login))])
           \<and> unique_ids (users db')"
proof -
  from login_success_conv [OF assms(2)] obtain user hashed
    where f: "find_one (users db) [(''username'', Str (username user_login))] = Some user"
      and h: "map_of user ''password'' = Some hashed"
      and v: "verify_password E (password user_login) hashed"
    by blast
  let ?t = "create_refresh_token E [(''sub'', Str (username user_login))]"
  from login_success [OF assms(1) f h v] assms(2)
  have body: "dict_get body ''refresh_token'' = Str ?t"
    and db': "users db' = store_token user ?t (users db)"
    by (auto simp: dict_get_def)
  from find_one_store_token [OF f, of ?t] db'
  have "find_one (users db') [(''username'', Str (username user_login))]
          = Some (dict_set user ''refresh_token'' (Str ?t))"
    by simp
  moreover have "dict_get (dict_set user ''refresh_token'' (Str ?t)) ''refresh_token'' = Str ?t"
    by (simp add: dict_get_dict_set)
  moreover from assms(1) db' have "unique_ids (users db')"
    by (simp add: unique_ids_store_token)
  ultimately show ?thesis using body by blast
qed

text \<open>
  So the token a login returns is accepted by a refresh on the store that login leaves,
  whatever was stored before: also when an earlier login had minted the very same
  string.
\<close>

lemma refresh_accepts_last_minted:
  assumes "unique_ids (users db)"
    and "login_for_access_token E user_login db = (Inr body, db')"
    and "dict_get body ''refresh_token'' = Str rt"
    and "decodes_for E' rt (Str (username user_login))"
  shows "refresh_access_token E' \<lparr>refresh_token = rt\<rparr> db'
           = (Inr [(''access_token'',
                      Str (create_access_token E' [(''sub'', Str (username user_login))]
                             (Minutes (ACCESS_TOKEN_EXPIRE_MINUTES E')))),
                   (''refresh_token'', Str rt),
                   (''token_type'', Str ''bearer'')], db')"
proof -
  from login_stores_token [OF assms(1,2)] assms(3) obtain user
    where f: "find_one (users db') [(''username'', Str (username user_login))] = Some user"
      and t: "dict_get user ''refresh_token'' = Str rt"
    by auto
  from assms(4) obtain payload
    where p: "decode_token E' rt = Some payload"
      and s: "dict_get payload ''sub'' = Str (username user_login)"
    by (auto simp: decodes_for_def split: option.splits)
  have "refresh_access_token E' \<lparr>refresh_token = rt\<rparr> db'
          = (Inr [(''access_token'',
                     Str (create_access_token E' [(''sub'', dict_get payload ''sub'')]
                            (Minutes (ACCESS_TOKEN_EXPIRE_MINUTES E')))),
                  (''refresh_token'', Str (refresh_token \<lparr>refresh_token = rt\<rparr>)),
                  (''token_type'', Str ''bearer'')], db')"
    by (rule refresh_success) (use p s f t in simp_all)
  with s show ?thesis by simp
qed

text \<open>
  And any other string is refused on that store, when the codec decodes it to the
  username or not at all.
\<close>

lemma refresh_refuses_other_token:
  assumes "unique_ids (users db)"
    and "login_for_access_token E user_login db = (Inr body, db')"
    and "dict_get body ''refresh_token'' = Str rt"
    and "t \<noteq> rt"
    and "decode_token E' t = None \<or> decodes_for E' t (Str (username user_login))"
  shows "refresh_access_token E' \<lparr>refresh_token = t\<rparr> db'
           = (Inl (Unauthorized ''Invalid refresh token''), db')"
proof -
  from login_stores_token [OF assms(1,2)] assms(3) obtain user
    where f: "find_one (users db') [(''username'', Str (username user_login))] = Some user"
      and s: "dict_get user ''refresh_token'' = Str rt"
    by auto
  show ?thesis
  proof (rule refresh_failure)
    show "decode_token E' (refresh_token \<lparr>refresh_token = t\<rparr>) = None
           \<or> (\<exists>payload. decode_token E' (refresh_token \<lparr>refresh_token = t\<rparr>) = Some payload \<and>
                 (dict_get payload ''sub'' = Null
                  \<or> find_one (users db') [(''username'', dict_get payload ''sub'')] = None
                  \<or> (\<exists>user. find_one (users db') [(''username'', dict_get payload ''sub'')]
                                = Some user
                       \<and> dict_get user ''refresh_token''
                            \<noteq> Str (refresh_token \<lparr>refresh_token = t\<rparr>))))"
      using assms(4,5) f s
      by (cases "decode_token E' t") (auto simp: decodes_for_def)
  qed
qed

text \<open>
  C3, as the code has it. After two sequential successful logins of the same username, on
  a store whose documents carry pairwise different \<^verbatim>\<open>_id\<close>s, the second login's refresh
  token is the stored one:
  \<^item> a refresh presenting the second login's token succeeds whenever the codec decodes
    that token to the username;
  \<^item> a refresh presenting the first login's token fails with 401 Unauthorized whenever
    the two logins minted different strings and the codec decodes the first token to the
    username or not at all;
  \<^item> when the two logins minted the same string, a refresh presenting the first login's
    token succeeds whenever the codec decodes it to the username;
  \<^item> every string other than the second login's token is refused with 401 whenever the
    codec decodes it to the username or not at all, so at most one refresh-token string
    is valid for the user.
\<close>

theorem second_login_supersedes_first:
  assumes "unique_ids (users db0)"
    and "login_for_access_token E1 login1 db0 = (Inr body1, db1)"
    and "login_for_access_token E2 login2 db1 = (Inr body2, db2)"
    and "username login1 = u" and "username login2 = u"
    and "dict_get body1 ''refresh_token'' = Str rt1"
    and "dict_get body2 ''refresh_token'' = Str rt2"
  shows "(decodes_for E4 rt2 (Str u) \<longrightarrow>
            refresh_access_token E4 \<lparr>refresh_token = rt2\<rparr> db2
              = (Inr [(''access_token'',
                         Str (create_access_token E4 [(''sub'', Str u)]
                                (Minutes (ACCESS_TOKEN_EXPIRE_MINUTES E4)))),
                      (''refresh_token'', Str rt2),
                      (''token_type'', Str ''bearer'')], db2))
         \<and> (rt1 \<noteq> rt2 \<and> (decode_token E3 rt1 = None \<or> decodes_for E3 rt1 (Str u)) \<longrightarrow>
              refresh_access_token E3 \<lparr>refresh_token = rt1\<rparr> db2
                = (Inl (Unauthorized ''Invalid refresh token''), db2))
         \<and> (rt1 = rt2 \<and> decodes_for E3 rt1 (Str u) \<longrightarrow>
              refresh_access_token E3 \<lparr>refresh_token = rt1\<rparr> db2
                = (Inr [(''access_token'',
                           Str (create_access_token E3 [(''sub'', Str u)]
                                  (Minutes (ACCESS_TOKEN_EXPIRE_MINUTES E3)))),
                        (''refresh_token'', Str rt1),
                        (''token_type'', Str ''bearer'')], db2))
         \<and> (\<forall>t. t \<noteq> rt2 \<and> (decode_token E3 t = None \<or> decodes_for E3 t (Str u)) \<longrightarrow>
              refresh_access_token E3 \<lparr>refresh_token = t\<rparr> db2
                = (Inl (Unauthorized ''Invalid refresh token''), db2))"
proof -
  from login_stores_token [OF assms(1,2)] have u1: "unique_ids (users db1)"
    by blast
  have accepted: "refresh_access_token E \<lparr>refresh_token = rt2\<rparr> db2
              = (Inr [(''access_token'',
                         Str (create_access_token E [(''sub'', Str u)]
                                (Minutes (ACCESS_TOKEN_EXPIRE_MINUTES E)))),
                      (''refresh_token'', Str rt2),
                      (''token_type'', Str ''bearer'')], db2)"
    if "decodes_for E rt2 (Str u)" for E
    using refresh_accepts_last_minted [OF u1 assms(3,7), of E] that assms(5) by simp
  have refused: "refresh_access_token E \<lparr>refresh_token = t\<rparr> db2
                = (Inl (Unauthorized ''Invalid refresh token''), db2)"
    if "t \<noteq> rt2" and "decode_token E t = None \<or> decodes_for E t (Str u)" for E t
    using refresh_refuses_other_token [OF u1 assms(3,7), of t E] that assms(5) by simp
  show ?thesis
  proof (intro conjI impI allI)
    assume "decodes_for E4 rt2 (Str u)"
    then show "refresh_access_token E4 \<lparr>refresh_token = rt2\<rparr> db2
              = (Inr [(''access_token'',
                         Str (create_access_token E4 [(''sub'', Str u)]
                                (Minutes (ACCESS_TOKEN_EXPIRE_MINUTES E4)))),
                      (''refresh_token'', Str rt2),
                      (''token_type'', Str ''bearer'')], db2)"
      by (rule accepted)
  next
    assume "rt1 \<noteq> rt2 \<and> (decode_token E3 rt1 = None \<or> decodes_for E3 rt1 (Str u))"
    then show "refresh_access_token E3 \<lparr>refresh_token = rt1\<rparr> db2
                = (Inl (Unauthorized ''Invalid refresh token''), db2)"
      using refused [of rt1 E3] by blast
  next
    assume "rt1 = rt2 \<and> decodes_for E3 rt1 (Str u)"
    then show "refresh_access_token E3 \<lparr>refresh_token = rt1\<rparr> db2
                = (Inr [(''access_token'',
                           Str (create_access_token E3 [(''sub'', Str u)]
                                  (Minutes (ACCESS_TOKEN_EXPIRE_MINUTES E3)))),
                        (''refresh_token'', Str rt1),
                        (''token_type'', Str ''bearer'')], db2)"
      using accepted [of E3] by auto
  next
    fix t
    assume "t \<noteq> rt2 \<and> (decode_token E3 t = None \<or> decodes_for E3 t (Str u))"
    then show "refresh_access_token E3 \<lparr>refresh_token = t\<rparr> db2
                = (Inl (Unauthorized ''Invalid refresh token''), db2)"
      using refused [of t E3] by blast
  qed
qed

text \<open>
  The theorem at two logins of \<open>alice\<close> whose codec stamps differ, so that the tokens
  \<open>R1alice\<close> and \<open>R2alice\<close> differ: \<open>R2alice\<close> is accepted, \<open>R1alice\<close> and the
  never issued \<open>R0alice\<close> are refused. And at two logins with the same stamp, which both
  mint \<open>R1alice\<close>: the first login's token is accepted.
\<close>

theorem second_login_supersedes_first_witness:
  "unique_ids (users example_db)
   \<and> login_for_access_token (example_env CHR ''1'') \<lparr>username = ''alice'', password = ''pass''\<rparr>
        example_db
       = (Inr [(''access_token'', Str ''A1alice''), (''refresh_token'', Str ''R1alice''),
               (''token_type'', Str ''bearer''), (''user_id'', Str ''i'')],
          example_db_logged_in)
   \<and> login_for_access_token (example_env CHR ''2'') \<lparr>username = ''alice'', password = ''pass''\<rparr>
        example_db_logged_in
       = (Inr [(''access_token'', Str ''A2alice''), (''refresh_token'', Str ''R2alice''),
               (''token_type'', Str ''bearer''), (''user_id'', Str ''i'')],
          example_db_logged_in_again)
   \<and> ''R1alice'' \<noteq> ''R2alice''
   \<and> ''R0alice'' \<noteq> ''R2alice''
   \<and> decodes_for (example_env CHR ''3'') ''R1alice'' (Str ''alice'')
   \<and> decodes_for (example_env CHR ''3'') ''R2alice'' (Str ''alice'')
   \<and> decodes_for (example_env CHR ''3'') ''R0alice'' (Str ''alice'')
   \<and> refresh_access_token (example_env CHR ''3'') \<lparr>refresh_token = ''R2alice''\<rparr>
        example_db_logged_in_again
       = (Inr [(''access_token'', Str ''A3alice''), (''refresh_token'', Str ''R2alice''),
               (''token_type'', Str ''bearer'')], example_db_logged_in_again)
   \<and> refresh_access_token (example_env CHR ''3'') \<lparr>refresh_token = ''R1alice''\<rparr>
        example_db_logged_in_again
       = (Inl (Unauthorized ''Invalid refresh token''), example_db_logged_in_again)
   \<and> refresh_access_token (example_env CHR ''3'') \<lparr>refresh_token = ''R0alice''\<rparr>
        example_db_logged_in_again
       = (Inl (Unauthorized ''Invalid refresh token''), example_db_logged_in_again)
   \<and> login_for_access_token (example_env CHR ''1'') \<lparr>username = ''alice'', password = ''pass''\<rparr>
        example_db_logged_in
       = (Inr [(''access_token'', Str ''A1alice''), (''refresh_token'', Str ''R1alice''),
               (''token_type'', Str ''bearer''), (''user_id'', Str ''i'')],
          example_db_logged_in)
   \<and> refresh_access_token (example_env CHR ''3'') \<lparr>refresh_token = ''R1alice''\<rparr>
        example_db_logged_in
       = (Inr [(''access_token'', Str ''A3alice''), (''refresh_token'', Str ''R1alice''),
               (''token_type'', Str ''bearer'')], example_db_logged_in)"
proof -
  have u: "unique_ids (users example_db)"
    by (simp add: example_defs store_defs unique_ids_def)
  have l1: "login_for_access_token (example_env CHR ''1'')
              \<lparr>username = ''alice'', password = ''pass''\<rparr> example_db
       = (Inr [(''access_token'', Str ''A1alice''), (''refresh_token'', Str ''R1alice''),
               (''token_type'', Str ''bearer''), (''user_id'', Str ''i'')],
          example_db_logged_in)"
    by (simp add: example_defs store_defs login_for_access_token_def Let_def)
  have l2: "login_for_access_token (example_env CHR ''2'')
              \<lparr>username = ''alice'', password = ''pass''\<rparr> example_db_logged_in
       = (Inr [(''access_token'', Str ''A2alice''), (''refresh_token'', Str ''R2alice''),
               (''token_type'', Str ''bearer''), (''user_id'', Str ''i'')],
          example_db_logged_in_again)"
    by (simp add: example_defs store_defs login_for_access_token_def Let_def)
  have l2same: "login_for_access_token (example_env CHR ''1'')
              \<lparr>username = ''alice'', password = ''pass''\<rparr> example_db_logged_in
       = (Inr [(''access_token'', Str ''A1alice''), (''refresh_token'', Str ''R1alice''),
               (''token_type'', Str ''bearer''), (''user_id'', Str ''i'')],
          example_db_logged_in)"
    by (simp add: example_defs store_defs login_for_access_token_def Let_def)
  have codec: "''R1alice'' \<noteq> ''R2alice''" "''R0alice'' \<noteq> ''R2alice''"
    "decodes_for (example_env CHR ''3'') ''R1alice'' (Str ''alice'')"
    "decodes_for (example_env CHR ''3'') ''R2alice'' (Str ''alice'')"
    "decodes_for (example_env CHR ''3'') ''R0alice'' (Str ''alice'')"
    "create_access_token (example_env CHR ''3'') [(''sub'', Str ''alice'')]
       (Minutes (ACCESS_TOKEN_EXPIRE_MINUTES (example_env CHR ''3''))) = ''A3alice''"
    by (simp_all add: example_env_def sub_text_def dict_get_def decodes_for_def)
  have differ: "refresh_access_token (example_env CHR ''3'') \<lparr>refresh_token = ''R2alice''\<rparr>
          example_db_logged_in_again
         = (Inr [(''access_token'', Str ''A3alice''), (''refresh_token'', Str ''R2alice''),
                 (''token_type'', Str ''bearer'')], example_db_logged_in_again)
       \<and> refresh_access_token (example_env CHR ''3'') \<lparr>refresh_token = ''R1alice''\<rparr>
          example_db_logged_in_again
         = (Inl (Unauthorized ''Invalid refresh token''), example_db_logged_in_again)
       \<and> refresh_access_token (example_env CHR ''3'') \<lparr>refresh_token = ''R0alice''\<rparr>
          example_db_logged_in_again
         = (Inl (Unauthorized ''Invalid refresh token''), example_db_logged_in_again)"
    using second_login_supersedes_first [OF u l1 l2, of "''alice''" "''R1alice''" "''R2alice''"
            "example_env CHR ''3''" "example_env CHR ''3''"] codec
    by (simp add: dict_get_def)
  have same: "refresh_access_token (example_env CHR ''3'') \<lparr>refresh_token = ''R1alice''\<rparr>
          example_db_logged_in
         = (Inr [(''access_token'', Str ''A3alice''), (''refresh_token'', Str ''R1alice''),
                 (''token_type'', Str ''bearer'')], example_db_logged_in)"
    using second_login_supersedes_first [OF u l1 l2same, of "''alice''" "''R1alice''" "''R1alice''"
            "example_env CHR ''3''" "example_env CHR ''3''"] codec
    by (simp add: dict_get_def)
  from u l1 l2 l2same codec differ same show ?thesis by simp
qed

text \<open>
  C3, as it is stated, fails where the codec mints the same string for both logins: a
  codec that is a function of the claims and of what it reads from the clock does so for
  two logins that read the same clock value. The stored token after the second login is
  then the first login's token, and presenting it succeeds.
\<close>

theorem first_token_survives_identical_mint:
  "login_for_access_token (example_env CHR ''1'') \<lparr>username = ''alice'', password = ''pass''\<rparr>
        example_db
       = (Inr [(''access_token'', Str ''A1alice''), (''refresh_token'', Str ''R1alice''),
               (''token_type'', Str ''bearer''), (''user_id'', Str ''i'')],
          example_db_logged_in)
   \<and> login_for_access_token (example_env CHR ''1'') \<lparr>username = ''alice'', password = ''pass''\<rparr>
        example_db_logged_in
       = (Inr [(''access_token'', Str ''A1alice''), (''refresh_token'', Str ''R1alice''),
               (''token_type'', Str ''bearer''), (''user_id'', Str ''i'')],
          example_db_logged_in)
   \<and> refresh_access_token (example_env CHR ''2'') \<lparr>refresh_token = ''R1alice''\<rparr>
        example_db_logged_in
       = (Inr [(''access_token'', Str ''A2alice''), (''refresh_token'', Str ''R1alice''),
               (''token_type'', Str ''bearer'')], example_db_logged_in)
   \<and> fst (refresh_access_token (example_env CHR ''2'') \<lparr>refresh_token = ''R1alice''\<rparr>
        example_db_logged_in) \<noteq> Inl (Unauthorized ''Invalid refresh token'')"
  by (simp add: example_defs store_defs login_for_access_token_def refresh_access_token_def
        Let_def)

section \<open>Register\<close>

text \<open>
  C6. A register request whose username already has a user record fails with 400,
  "Username already registered", and returns the database unchanged: no user record and
  no statistics record is inserted.
\<close>

theorem register_existing_username:
  assumes "find_one (users db) [(''username'', Str (username user))] \<noteq> None"
  shows "register_user E user db = (Inl (HTTPException 400 ''Username already registered'' None), db)"
proof -
  from assms obtain d where d: "find_one (users db) [(''username'', Str (username user))] = Some d"
    by auto
  then have "d \<noteq> []" by (rule find_one_nonempty)
  with d show ?thesis
    by (simp add: register_user_def users_find_one_def truthy_def)
qed

text \<open>The theorem at a second registration of \<open>alice\<close>.\<close>

theorem register_existing_username_witness:
  "find_one (users example_db) [(''username'', Str ''alice'')] \<noteq> None
   \<and> register_user (example_env CHR ''1'') \<lparr>username = ''alice'', password = ''other''\<rparr> example_db
      = (Inl (HTTPException 400 ''Username already registered'' None), example_db)"
  using register_existing_username [of example_db "\<lparr>username = ''alice'', password = ''other''\<rparr>"
          "example_env CHR ''1''"]
  by (simp add: example_defs store_defs)

text \<open>
  C7. A register request whose username has no user record inserts exactly one user
  record, with the fields \<^verbatim>\<open>username\<close>, \<^verbatim>\<open>password\<close> and \<^verbatim>\<open>created_at\<close>: the stored
  \<^verbatim>\<open>password\<close> is \<^verbatim>\<open>get_password_hash(password)\<close>, never the plaintext field of the
  request, and \<^verbatim>\<open>created_at\<close> is the reading of \<^verbatim>\<open>datetime.utcnow()\<close>. It inserts
  exactly one statistics record, linked by \<^verbatim>\<open>user_id\<close>, with \<^verbatim>\<open>weekly\<close>, \<^verbatim>\<open>monthly\<close>
  and \<^verbatim>\<open>yearly\<close> empty and a \<^verbatim>\<open>total_distance\<close> whose four totals are 0 and whose
  period-start field \<^verbatim>\<open>year_start\<close> is the reading of \<^verbatim>\<open>datetime.now(timezone.utc)\<close>.
  It returns the new identifier and the username. The ObjectIds the driver generates are
  new to their collections.
\<close>

theorem register_new_username:
  assumes "find_one (users db) [(''username'', Str (username user))] = None"
    and "ObjectId (users_ObjectId E) \<notin> set (ids (users db))"
    and "ObjectId (statistics_ObjectId E) \<notin> set (ids (statistics db))"
  shows "register_user E user db =
           (Inr [(''id'', Str (str E (ObjectId (users_ObjectId E)))),
                 (''username'', Str (username user))],
            db\<lparr>users := users db @
                    [[(''_id'', ObjectId (users_ObjectId E)),
                      (''username'', Str (username user)),
                      (''password'', Str (get_password_hash E (password user))),
                      (''created_at'', Datetime (utcnow E))]],
               statistics := statistics db @
                    [[(''_id'', ObjectId (statistics_ObjectId E)),
                      (''user_id'', ObjectId (users_ObjectId E)),
                      (''weekly'', Array []),
                      (''monthly'', Array []),
                      (''yearly'', Array []),
                      (''total_distance'', Document
                         [(''year_start'', Datetime (now_utc E)),
                          (''distance'', Num 0),
                          (''duration'', Num 0),
                          (''count'', Num 0),
                          (''average_pace'', Num 0)])]]\<rparr>)"
proof -
  let ?user_data = "[(''username'', Str (username user)),
                     (''password'', Str (get_password_hash E (password user))),
                     (''created_at'', Datetime (utcnow E))]"
  have data: "dict_set (dict_set [(''username'', Str (username user)),
                                   (''password'', Str (password user))]
                          ''password'' (Str (get_password_hash E (password user))))
                ''created_at'' (Datetime (utcnow E)) = ?user_data"
    by (simp add: dict_set_def)
  have ins_user: "users_insert_one ?user_data (users_ObjectId E) db =
          (Inr (ObjectId (users_ObjectId E)),
           db\<lparr>users := users db @ [(''_id'', ObjectId (users_ObjectId E)) # ?user_data]\<rparr>)"
    using assms(2) by (simp add: users_insert_one_def insert_one_fresh)
  show ?thesis
    using assms(1,3)
    by (simp add: register_user_def users_find_one_def truthy_def Let_def data ins_user
          statistics_insert_one_def insert_one_fresh)
qed

text \<open>The theorem at the registration of \<open>bob\<close> in the store that holds \<open>alice\<close>.\<close>

theorem register_new_username_witness:
  "find_one (users example_db) [(''username'', Str ''bob'')] = None
   \<and> ObjectId 2 \<notin> set (ids (users example_db))
   \<and> ObjectId 2 \<notin> set (ids (statistics example_db))
   \<and> register_user (example_env CHR ''1'') \<lparr>username = ''bob'', password = ''pw''\<rparr> example_db =
       (Inr [(''id'', Str ''ii''), (''username'', Str ''bob'')],
        \<lparr>users = [alice,
                   [(''_id'', ObjectId 2), (''username'', Str ''bob''), (''password'', Str ''wp''),
                    (''created_at'', Datetime 1000)]],
         statistics = [[(''_id'', ObjectId 1), (''user_id'', ObjectId 1)],
                       [(''_id'', ObjectId 2), (''user_id'', ObjectId 2),
                        (''weekly'', Array []), (''monthly'', Array []), (''yearly'', Array []),
                        (''total_distance'', Document
                           [(''year_start'', Datetime 1001), (''distance'', Num 0),
                            (''duration'', Num 0), (''count'', Num 0),
                            (''average_pace'', Num 0)])]]\<rparr>)"
  using register_new_username [of example_db "\<lparr>username = ''bob'', password = ''pw''\<rparr>"
          "example_env CHR ''1''"]
  by (simp add: example_defs store_defs numeral_2_eq_2)

section \<open>WhoAmI\<close>

text \<open>
  C9. \<open>read_users_me\<close> fails with 401 Unauthorized, "Invalid token", in each of three
  cases: the dependency gave no claim set (token absent or undecodable), the claim set
  carries no subject, no user record exists for the subject. The error is the same value
  in the three cases.
\<close>

theorem read_users_me_unauthorized:
  assumes "token = None
           \<or> (\<exists>claims. token = Some claims \<and>
                 (dict_get claims ''sub'' = Null
                  \<or> find_one (users db) [(''username'', dict_get claims ''sub'')] = None))"
  shows "read_users_me token db =
           (Inl (HTTPException 401 ''Invalid token'' (Some [(''WWW-Authenticate'', ''Bearer'')])),
            db)"
  using assms
  by (auto simp: read_users_me_def users_find_one_def truthy_def Let_def
        HTTP_401_UNAUTHORIZED_def bearer_headers_def)

text \<open>The theorem at one input for each of the three cases.\<close>

theorem read_users_me_unauthorized_witness:
  "read_users_me None example_db =
     (Inl (HTTPException 401 ''Invalid token'' (Some [(''WWW-Authenticate'', ''Bearer'')])),
      example_db)
   \<and> dict_get [(''exp'', Num 5)] ''sub'' = Null
   \<and> read_users_me (Some [(''exp'', Num 5)]) example_db =
     (Inl (HTTPException 401 ''Invalid token'' (Some [(''WWW-Authenticate'', ''Bearer'')])),
      example_db)
   \<and> find_one (users example_db) [(''username'', dict_get [(''sub'', Str ''bob'')] ''sub'')] = None
   \<and> read_users_me (Some [(''sub'', Str ''bob'')]) example_db =
     (Inl (HTTPException 401 ''Invalid token'' (Some [(''WWW-Authenticate'', ''Bearer'')])),
      example_db)"
  using read_users_me_unauthorized [of None example_db]
    read_users_me_unauthorized [of "Some [(''exp'', Num 5)]" example_db]
    read_users_me_unauthorized [of "Some [(''sub'', Str ''bob'')]" example_db]
  by (simp add: example_defs store_defs)

text \<open>
  What the handler itself returns on success is the stored document, whole: with its
  \<^verbatim>\<open>password\<close> field, and its \<^verbatim>\<open>refresh_token\<close> field when the user has logged in.
\<close>

lemma read_users_me_success:
  assumes "read_users_me token db = (Inr user, db')"
  shows "\<exists>claims. token = Some claims \<and> dict_get claims ''sub'' \<noteq> Null \<and>
           find_one (users db) [(''username'', dict_get claims ''sub'')] = Some user \<and> db' = db"
  using assms
  by (auto simp: read_users_me_def users_find_one_def truthy_def Let_def
           split: option.splits if_splits)

lemma read_users_me_returns_document:
  assumes "dict_get claims ''sub'' \<noteq> Null"
    and "find_one (users db) [(''username'', dict_get claims ''sub'')] = Some user"
  shows "read_users_me (Some claims) db = (Inr user, db)"
  using assms find_one_nonempty [OF assms(2)]
  by (simp add: read_users_me_def users_find_one_def truthy_def Let_def)

text \<open>
  C2. Every profile the endpoint \<open>me\<close> returns has only the fields of the response model
  (identifier, username, creation time); it has no \<^verbatim>\<open>password\<close> field and no
  \<^verbatim>\<open>refresh_token\<close> field.
\<close>

theorem me_profile_public_fields:
  assumes "fst (me token db) = Inr profile"
  shows "set (map fst profile) \<subseteq> {''_id'', ''username'', ''created_at''}
         \<and> map_of profile ''password'' = None
         \<and> map_of profile ''refresh_token'' = None"
proof -
  from assms obtain user where p: "profile = response_model_User user"
    by (auto simp: me_def split: prod.splits sum.splits)
  have keys: "set (map fst profile) \<subseteq> {''_id'', ''username'', ''created_at''}"
    unfolding p response_model_User_def User_fields_def by auto
  have "''password'' \<notin> set (map fst profile)" "''refresh_token'' \<notin> set (map fst profile)"
    using keys by auto
  then show ?thesis using keys by (simp add: map_of_eq_None_iff)
qed

text \<open>
  The theorem at the store where \<open>alice\<close> has logged in, so that her document holds both
  a password hash and a refresh token.
\<close>

theorem me_profile_public_fields_witness:
  "fst (me (Some [(''sub'', Str ''alice'')]) example_db_logged_in)
     = Inr [(''_id'', ObjectId 1), (''username'', Str ''alice''), (''created_at'', Datetime 5)]
   \<and> set (map fst [(''_id'', ObjectId 1), (''username'', Str ''alice''),
                     (''created_at'', Datetime 5)])
        \<subseteq> {''_id'', ''username'', ''created_at''}
   \<and> map_of [(''_id'', ObjectId 1), (''username'', Str ''alice''), (''created_at'', Datetime 5)]
        ''password'' = None
   \<and> map_of [(''_id'', ObjectId 1), (''username'', Str ''alice''), (''created_at'', Datetime 5)]
        ''refresh_token'' = None"
  using me_profile_public_fields [of "Some [(''sub'', Str ''alice'')]" example_db_logged_in
          "[(''_id'', ObjectId 1), (''username'', Str ''alice''), (''created_at'', Datetime 5)]"]
  by (simp add: example_defs store_defs me_def read_users_me_def response_model_User_def
        User_fields_def Let_def)

section \<open>The store's guarantee along every run\<close>

text \<open>
  The theorems on login assume a users collection whose documents carry pairwise
  different \<^verbatim>\<open>_id\<close>s. Every store the handlers can reach from the empty one is such a
  store: \<^verbatim>\<open>insert_one\<close> refuses a duplicate, \<^verbatim>\<open>update_one\<close> with
  \<^verbatim>\<open>{"$set": {"refresh_token": ...}}\<close> leaves every \<^verbatim>\<open>_id\<close> alone, and the two
  reading handlers change nothing.
\<close>

lemma insert_one_unique_ids:
  assumes "unique_ids coll" and "insert_one coll document oid = Inr (inserted_id, coll')"
  shows "unique_ids coll'"
proof -
  let ?stored = "case map_of document ''_id'' of
                   None \<Rightarrow> (''_id'', ObjectId oid) # document | Some _ \<Rightarrow> document"
  from assms(2) have new: "dict_get ?stored ''_id'' \<notin> set (ids coll)"
    and coll': "coll' = coll @ [?stored]"
    by (auto simp: insert_one_def Let_def split: if_splits)
  have "map_of ?stored ''_id'' \<noteq> None"
    by (cases "map_of document ''_id''") auto
  with assms(1) new show ?thesis
    unfolding coll' by (simp add: unique_ids_def ids_def)
qed

lemma login_error_frame:
  assumes "login_for_access_token E user_login db = (Inl e, db')"
  shows "db' = db"
  using assms
  by (auto simp: login_for_access_token_def users_find_one_def Let_def
           split: option.splits if_splits sum.splits)

lemma login_statistics: "statistics (snd (login_for_access_token E user_login db)) = statistics db"
  by (auto simp: login_for_access_token_def users_find_one_def users_update_one_def Let_def
           split: option.splits if_splits sum.splits)

lemma login_unique_ids:
  assumes "unique_ids (users db)"
  shows "unique_ids (users (snd (login_for_access_token E user_login db)))"
proof (cases "login_for_access_token E user_login db")
  case (Pair r db')
  show ?thesis
  proof (cases r)
    case (Inl e)
    with Pair have "db' = db" by (simp add: login_error_frame)
    with Pair assms show ?thesis by simp
  next
    case (Inr body)
    with Pair login_stores_token [OF assms] show ?thesis by auto
  qed
qed

lemma register_unique_ids:
  assumes "unique_ids (users db)" and "unique_ids (statistics db)"
  shows "unique_ids (users (snd (register_user E user db)))
         \<and> unique_ids (statistics (snd (register_user E user db)))"
  using assms
  by (auto simp: register_user_def users_find_one_def users_insert_one_def
        statistics_insert_one_def Let_def
      split: sum.splits prod.splits dest: insert_one_unique_ids)

lemma read_users_me_frame: "snd (read_users_me token db) = db"
  by (simp add: read_users_me_def users_find_one_def Let_def split: option.splits)

lemma refresh_unique_ids: "users (snd (refresh_access_token E request db)) = users db
    \<and> statistics (snd (refresh_access_token E request db)) = statistics db"
  by (simp add: refresh_access_token_def users_find_one_def Let_def
           split: option.splits sum.splits)

lemma reachable_unique_ids:
  assumes "reachable db"
  shows "unique_ids (users db) \<and> unique_ids (statistics db)"
  using assms
proof (induction rule: reachable.induct)
  case empty
  show ?case by (simp add: unique_ids_def ids_def)
next
  case (call db c)
  then show ?case
    by (cases c)
       (simp_all add: login_unique_ids login_statistics register_unique_ids
          read_users_me_frame refresh_unique_ids)
qed

end
